theory Spec2Isabelle
  imports Complex_Main "HOL-Library.AList"
begin

section \<open>Data model\<close>

text \<open>
  The energy management system is written in Python. Its kilowatt, kilowatt-hour and
  percent quantities are Python floats; they are modelled here as exact rationals
  (\<open>rat\<close>), so every statement below is about the arithmetic the code writes down,
  without binary rounding error. Fields the source declares as \<open>int\<close>
  (\<open>gridCapacity\<close>, \<open>maxPower\<close>, the battery \<open>power\<close>, \<open>connector_id\<close>) are \<open>int\<close>.
  Time stamps (\<open>datetime.now()\<close>) are passed in as a natural number.
\<close>

datatype py_error =
    ZeroDivisionError
  | ChargerNotFound string          \<comment> \<open>\<open>ValueError("Charger ... not found")\<close>\<close>
  | ConnectorNotFound string int    \<comment> \<open>\<open>ValueError("Connector ... not found ...")\<close>\<close>
  | IntegrityError                  \<comment> \<open>the unique constraint on the \<open>session_id\<close> column\<close>

datatype ConnectorType = CCS2 | CHADEMO | TYPE2 | TYPE1 | GB_T | TESLA

datatype ConnectorStatus = AVAILABLE | OCCUPIED | RESERVED | UNAVAILABLE | FAULTED

datatype SessionStatus = ACTIVE | CHARGING | COMPLETED | STOPPED

datatype BESSMode = IDLE | BESS_CHARGING | DISCHARGING | BOOST

text \<open>\<open>app/models/station.py\<close>. The optional \<open>manufacturer\<close> and \<open>model\<close>
  strings of a charger are never read by the engine and are left out.\<close>

record ConnectorConfig =
  connector_id :: int
  connector_type :: ConnectorType
  max_power :: rat

record ChargerConfig =
  charger_id :: string   \<comment> \<open>the field \<open>id\<close>\<close>
  maxPower :: int
  connectors :: "ConnectorConfig list"

record BatteryConfig =
  initialCapacity :: rat
  battery_power :: int   \<comment> \<open>the field \<open>power\<close>\<close>
  minSOC :: rat
  maxSOC :: rat

record StationConfig =
  stationId :: string
  gridCapacity :: int
  chargers :: "ChargerConfig list"
  battery :: "BatteryConfig option"
  staticLoad :: rat

text \<open>\<open>app/models/session.py\<close>.\<close>

record ChargingSession =
  sessionId :: string
  chargerId :: string
  connectorId :: int
  status :: SessionStatus
  startTime :: nat
  endTime :: "nat option"
  vehicleMaxPower :: rat
  allocatedPower :: rat
  consumedPower :: rat
  offeredPower :: rat
  totalEnergy :: rat
  vehicleSoc :: "rat option"

record PowerAllocation =
  pa_sessionId :: string
  pa_chargerId :: string
  pa_connectorId :: int
  pa_allocatedPower :: rat
  pa_consumedPower :: rat
  pa_vehicleMaxPower :: rat

text \<open>\<open>app/models/bess.py\<close> (the \<open>timestamp\<close> of a status is left out).\<close>

record BESSStatus =
  st_mode :: BESSMode
  st_power :: rat
  st_soc :: rat
  capacity :: rat
  availableEnergy :: rat
  availableDischarge :: rat
  availableCharge :: rat

record BESSCommand =
  command :: string
  cmd_power :: rat

text \<open>
  A Python \<open>dict\<close> keeps insertion order: assigning to an existing key replaces the value
  in place, assigning to a new key appends, \<open>del\<close> removes. This is an association list
  with \<open>map_of\<close>, \<open>AList.update\<close> and \<open>AList.delete\<close>; \<open>values\<close> is \<open>map snd\<close>.
\<close>

type_synonym session_dict = "(string \<times> ChargingSession) list"

definition dict_values :: "session_dict \<Rightarrow> ChargingSession list" where
  "dict_values d = map snd d"

section \<open>Rounding\<close>

text \<open>
  \<open>round(x, 1)\<close>: the nearest multiple of 0.1, a tie going to the even tenth
  (Python rounds half to even).
\<close>

definition round_half_even :: "rat \<Rightarrow> int" where
  "round_half_even y =
     (let f = \<lfloor>y\<rfloor>; d = y - of_int f
      in if d < 1 / 2 then f
         else if 1 / 2 < d then f + 1
         else if even f then f else f + 1)"

definition round1 :: "rat \<Rightarrow> rat" where
  "round1 x = of_int (round_half_even (x * 10)) / 10"

section \<open>The load management algorithm (\<open>app/core/load_management.py\<close>)\<close>

record LoadManagementAlgorithm =
  config :: StationConfig
  sessions :: session_dict

text \<open>\<open>_get_charger_connector_limit\<close>: the charger's shared power divided by the number
  of active sessions of the registry on that charger; 0 for a charger the configuration
  does not list.\<close>

definition active_connectors :: "LoadManagementAlgorithm \<Rightarrow> ChargingSession \<Rightarrow> nat" where
  "active_connectors lm session =
     length (filter (\<lambda>s. chargerId s = chargerId session \<and> status s = ACTIVE)
                    (dict_values (sessions lm)))"

definition get_charger_connector_limit :: "LoadManagementAlgorithm \<Rightarrow> ChargingSession \<Rightarrow> rat" where
  "get_charger_connector_limit lm session =
     (case find (\<lambda>c. charger_id c = chargerId session) (chargers (config lm)) of
        None \<Rightarrow> 0
      | Some charger_config \<Rightarrow>
          (let n = active_connectors lm session;
               n' = (if n = 0 then 1 else n)
           in of_int (maxPower charger_config) / of_nat n'))"

definition session_demand :: "LoadManagementAlgorithm \<Rightarrow> ChargingSession \<Rightarrow> rat" where
  "session_demand lm s = min (vehicleMaxPower s) (get_charger_connector_limit lm s)"

definition total_available_power :: "LoadManagementAlgorithm \<Rightarrow> BESSStatus option \<Rightarrow> rat" where
  "total_available_power lm bess_status =
     (let available_grid = of_int (gridCapacity (config lm)) - staticLoad (config lm);
          available_bess =
            (case bess_status of
               None \<Rightarrow> 0
             | Some b \<Rightarrow> (if battery (config lm) \<noteq> None then availableDischarge b else 0))
      in available_grid + available_bess)"

definition total_demand_of :: "LoadManagementAlgorithm \<Rightarrow> session_dict \<Rightarrow> rat" where
  "total_demand_of lm ss = sum_list (map (session_demand lm) (dict_values ss))"

definition make_allocation :: "LoadManagementAlgorithm \<Rightarrow> rat \<Rightarrow> ChargingSession \<Rightarrow> PowerAllocation" where
  "make_allocation lm allocation_factor session =
     \<lparr> pa_sessionId = sessionId session,
       pa_chargerId = chargerId session,
       pa_connectorId = connectorId session,
       pa_allocatedPower = round1 (session_demand lm session * allocation_factor),
       pa_consumedPower = consumedPower session,
       pa_vehicleMaxPower = vehicleMaxPower session \<rparr>"

text \<open>\<open>calculate_power_allocation\<close>. The division \<open>total_available / total_demand\<close>
  raises \<open>ZeroDivisionError\<close> when the total demand is 0 and the available power is
  negative.\<close>

definition calculate_power_allocation ::
  "LoadManagementAlgorithm \<Rightarrow> session_dict \<Rightarrow> BESSStatus option \<Rightarrow> py_error + PowerAllocation list" where
  "calculate_power_allocation lm ss bess_status =
     (if ss = [] then Inr []
      else
        let total_available = total_available_power lm bess_status;
            total_demand = total_demand_of lm ss
        in if total_demand \<le> total_available
           then Inr (map (make_allocation lm 1) (dict_values ss))
           else if total_demand = 0 then Inl ZeroDivisionError
           else Inr (map (make_allocation lm (total_available / total_demand)) (dict_values ss)))"


text \<open>The loops that copy the allocations back into the registry. The start and stop
  handlers write \<open>allocatedPower\<close> only; the power-update handler writes
  \<open>allocatedPower\<close> and \<open>offeredPower\<close>.\<close>

definition set_allocated :: "PowerAllocation \<Rightarrow> session_dict \<Rightarrow> session_dict" where
  "set_allocated alloc d =
     (case map_of d (pa_sessionId alloc) of
        None \<Rightarrow> d
      | Some s \<Rightarrow> AList.update (pa_sessionId alloc)
                    (s\<lparr>allocatedPower := pa_allocatedPower alloc\<rparr>) d)"

definition set_allocated_offered :: "PowerAllocation \<Rightarrow> session_dict \<Rightarrow> session_dict" where
  "set_allocated_offered alloc d =
     (case map_of d (pa_sessionId alloc) of
        None \<Rightarrow> d
      | Some s \<Rightarrow> AList.update (pa_sessionId alloc)
                    (s\<lparr>allocatedPower := pa_allocatedPower alloc,
                       offeredPower := pa_allocatedPower alloc\<rparr>) d)"

definition allocation_for :: "string \<Rightarrow> PowerAllocation list \<Rightarrow> rat" where
  "allocation_for session_id allocations =
     (case find (\<lambda>a. pa_sessionId a = session_id) allocations of
        None \<Rightarrow> 0
      | Some a \<Rightarrow> pa_allocatedPower a)"

text \<open>
  The handlers mutate \<open>self.sessions\<close> before they call the allocator, so each one
  returns the registry as the call leaves it together with the value returned or the
  exception raised.
\<close>

definition handle_session_start ::
  "LoadManagementAlgorithm \<Rightarrow> string \<Rightarrow> string \<Rightarrow> int \<Rightarrow> rat \<Rightarrow> nat
     \<Rightarrow> LoadManagementAlgorithm \<times> (py_error + rat)" where
  "handle_session_start lm session_id charger_id' connector_id' vehicle_max_power now =
     (let new_session =
            \<lparr> sessionId = session_id, chargerId = charger_id', connectorId = connector_id',
              status = ACTIVE, startTime = now, endTime = None,
              vehicleMaxPower = vehicle_max_power, allocatedPower = 0, consumedPower = 0,
              offeredPower = 0, totalEnergy = 0, vehicleSoc = None \<rparr>;
          lm1 = lm\<lparr>sessions := AList.update session_id new_session (sessions lm)\<rparr>
      in case calculate_power_allocation lm1 (sessions lm1) None of
           Inl e \<Rightarrow> (lm1, Inl e)
         | Inr allocations \<Rightarrow>
             (lm1\<lparr>sessions := fold set_allocated allocations (sessions lm1)\<rparr>,
              Inr (allocation_for session_id allocations)))"

text \<open>\<open>handle_session_stop\<close>: the stopped session object is marked completed and then
  deleted from the registry, so only the deletion is visible afterwards.\<close>

definition handle_session_stop ::
  "LoadManagementAlgorithm \<Rightarrow> string \<Rightarrow> rat \<Rightarrow> nat
     \<Rightarrow> LoadManagementAlgorithm \<times> (py_error + bool)" where
  "handle_session_stop lm session_id consumed_energy now =
     (case map_of (sessions lm) session_id of
        None \<Rightarrow> (lm, Inr False)
      | Some session \<Rightarrow>
          (let lm1 = lm\<lparr>sessions := AList.delete session_id (sessions lm)\<rparr>
           in if sessions lm1 = [] then (lm1, Inr True)
              else case calculate_power_allocation lm1 (sessions lm1) None of
                     Inl e \<Rightarrow> (lm1, Inl e)
                   | Inr allocations \<Rightarrow>
                       (lm1\<lparr>sessions := fold set_allocated allocations (sessions lm1)\<rparr>,
                        Inr True)))"

definition handle_power_update ::
  "LoadManagementAlgorithm \<Rightarrow> string \<Rightarrow> rat \<Rightarrow> rat \<Rightarrow> BESSStatus option
     \<Rightarrow> LoadManagementAlgorithm \<times> (py_error + rat)" where
  "handle_power_update lm session_id consumed_power vehicle_max_power bess_status =
     (case map_of (sessions lm) session_id of
        None \<Rightarrow> (lm, Inr 0)
      | Some session \<Rightarrow>
          (let lm1 = lm\<lparr>sessions := AList.update session_id
                         (session\<lparr>consumedPower := consumed_power,
                                  vehicleMaxPower := vehicle_max_power\<rparr>) (sessions lm)\<rparr>
           in case calculate_power_allocation lm1 (sessions lm1) bess_status of
                Inl e \<Rightarrow> (lm1, Inl e)
              | Inr allocations \<Rightarrow>
                  (lm1\<lparr>sessions := fold set_allocated_offered allocations (sessions lm1)\<rparr>,
                   Inr (allocation_for session_id allocations))))"

section \<open>The battery controller (\<open>app/core/bess_controller.py\<close>)\<close>

record BESSController =
  bess_config :: BatteryConfig
  current_soc :: rat
  current_power :: rat
  mode :: BESSMode

definition init_bess_controller :: "BatteryConfig \<Rightarrow> BESSController" where
  "init_bess_controller battery_config =
     \<lparr> bess_config = battery_config, current_soc = 100, current_power = 0, mode = IDLE \<rparr>"

definition calculate_available_energy :: "BESSController \<Rightarrow> rat" where
  "calculate_available_energy bc =
     (let usable_soc = max 0 (current_soc bc - minSOC (bess_config bc))
      in (usable_soc / 100) * initialCapacity (bess_config bc))"

definition calculate_available_discharge :: "BESSController \<Rightarrow> rat" where
  "calculate_available_discharge bc =
     (if current_soc bc \<le> minSOC (bess_config bc) then 0
      else min (of_int (battery_power (bess_config bc))) (calculate_available_energy bc))"

definition calculate_available_charge :: "BESSController \<Rightarrow> rat" where
  "calculate_available_charge bc =
     (if maxSOC (bess_config bc) \<le> current_soc bc then 0
      else
        let available_capacity =
              ((maxSOC (bess_config bc) - current_soc bc) / 100) * initialCapacity (bess_config bc)
        in min (of_int (battery_power (bess_config bc))) available_capacity)"

definition get_status :: "BESSController \<Rightarrow> BESSStatus" where
  "get_status bc =
     \<lparr> st_mode = mode bc,
       st_power = current_power bc,
       st_soc = current_soc bc,
       capacity = initialCapacity (bess_config bc),
       availableEnergy = calculate_available_energy bc,
       availableDischarge = calculate_available_discharge bc,
       availableCharge = calculate_available_charge bc \<rparr>"

definition calculate_boost_power :: "BESSController \<Rightarrow> rat \<Rightarrow> rat \<Rightarrow> rat" where
  "calculate_boost_power bc grid_available total_demand =
     (let shortage = max 0 (total_demand - grid_available)
      in if shortage = 0 then 0
         else min shortage (calculate_available_discharge bc))"

definition MIN_CHARGE_POWER :: rat where
  "MIN_CHARGE_POWER = 5"

definition calculate_charge_opportunity :: "BESSController \<Rightarrow> rat \<Rightarrow> rat \<Rightarrow> rat" where
  "calculate_charge_opportunity bc grid_available current_load =
     (if maxSOC (bess_config bc) \<le> current_soc bc then 0
      else
        let spare_power = grid_available - current_load
        in if spare_power \<le> 0 then 0
           else
             let charge_power = min spare_power (calculate_available_charge bc)
             in if charge_power < MIN_CHARGE_POWER then 0 else charge_power)"

definition mode_of_power :: "rat \<Rightarrow> BESSMode" where
  "mode_of_power p =
     (if \<bar>p\<bar> < 1 / 10 then IDLE else if 0 < p then DISCHARGING else BESS_CHARGING)"

text \<open>\<open>apply_power\<close> divides by the configured capacity before it changes anything, so a
  capacity of 0 raises \<open>ZeroDivisionError\<close> and leaves the controller as it was.\<close>

definition apply_power :: "BESSController \<Rightarrow> rat \<Rightarrow> rat \<Rightarrow> py_error + BESSController" where
  "apply_power bc p duration_seconds =
     (if initialCapacity (bess_config bc) = 0 then Inl ZeroDivisionError
      else
        let energy_kwh = (p * duration_seconds) / 3600;
            soc_change = (energy_kwh / initialCapacity (bess_config bc)) * 100;
            new_soc = current_soc bc - soc_change
        in Inr (bc\<lparr>current_soc := max (minSOC (bess_config bc)) (min (maxSOC (bess_config bc)) new_soc),
                   current_power := p,
                   mode := mode_of_power p\<rparr>))"

definition set_idle :: "BESSController \<Rightarrow> BESSController \<times> BESSCommand" where
  "set_idle bc =
     (bc\<lparr>mode := IDLE, current_power := 0\<rparr>, \<lparr>command = ''idle'', cmd_power = 0\<rparr>)"

definition set_discharge :: "BESSController \<Rightarrow> rat \<Rightarrow> BESSController \<times> BESSCommand" where
  "set_discharge bc p =
     (let available = calculate_available_discharge bc;
          actual_power = min p available
      in if actual_power < 1 / 10 then set_idle bc
         else (bc\<lparr>mode := BOOST\<rparr>, \<lparr>command = ''discharge'', cmd_power = actual_power\<rparr>))"

definition set_charge :: "BESSController \<Rightarrow> rat \<Rightarrow> BESSController \<times> BESSCommand" where
  "set_charge bc p =
     (let available = calculate_available_charge bc;
          actual_power = min p available
      in if actual_power < 1 / 10 then set_idle bc
         else (bc\<lparr>mode := BESS_CHARGING\<rparr>, \<lparr>command = ''charge'', cmd_power = actual_power\<rparr>))"

definition update_from_telemetry :: "BESSController \<Rightarrow> rat \<Rightarrow> rat \<Rightarrow> BESSController" where
  "update_from_telemetry bc soc p =
     bc\<lparr>current_soc := soc, current_power := p, mode := mode_of_power p\<rparr>"

section \<open>The session services (\<open>app/services/session_service.py\<close>, \<open>session_service_mqtt.py\<close>)\<close>

text \<open>
  Both services hold the load manager, the optional battery controller and a database.
  Of the database only what the services read back is modelled: the charger identifiers of
  the station, the connector rows with their status, keyed by charger and connector
  number, and the session identifiers, which the \<open>session_id\<close> column keeps unique. The
  rows written for history (power updates, metrics, battery logs, events) are never read
  by the engine. The service's \<open>config\<close> is the configuration the load manager was built
  from.
\<close>

record Database =
  db_chargers :: "string list"
  db_connectors :: "((string \<times> int) \<times> ConnectorStatus) list"
  db_sessions :: "string list"

record SessionService =
  load_manager :: LoadManagementAlgorithm
  bess_controller :: "BESSController option"
  db :: Database

definition total_consumed_of :: "LoadManagementAlgorithm \<Rightarrow> rat" where
  "total_consumed_of lm = sum_list (map consumedPower (dict_values (sessions lm)))"

text \<open>
  \<open>_optimize_bess_usage\<close> (the MQTT service's \<open>_optimize_and_publish_bess\<close> has the same
  branches). The second component is the command the controller produced in this step,
  \<open>None\<close> when no \<open>set_...\<close> method was called. The MQTT variant publishes it; in the last
  branch the REST variant calls \<open>set_idle\<close> and drops the command.
\<close>

definition optimize_bess_usage :: "SessionService \<Rightarrow> SessionService \<times> BESSCommand option" where
  "optimize_bess_usage svc =
     (case bess_controller svc of
        None \<Rightarrow> (svc, None)
      | Some bc \<Rightarrow>
          (let lm = load_manager svc;
               grid_available = of_int (gridCapacity (config lm)) - staticLoad (config lm);
               total_consumed = total_consumed_of lm;
               total_demand = total_demand_of lm (sessions lm)
           in if grid_available < total_demand then
                (let boost_power = calculate_boost_power bc grid_available total_demand
                 in if 0 < boost_power then
                      (case set_discharge bc boost_power of
                         (bc', cmd) \<Rightarrow> (svc\<lparr>bess_controller := Some bc'\<rparr>, Some cmd))
                    else (svc, None))
              else if total_consumed < grid_available * (7 / 10) then
                (let charge_power = calculate_charge_opportunity bc grid_available total_consumed
                 in if 0 < charge_power then
                      (case set_charge bc charge_power of
                         (bc', cmd) \<Rightarrow> (svc\<lparr>bess_controller := Some bc'\<rparr>, Some cmd))
                    else (svc, None))
              else
                (case set_idle bc of
                   (bc', cmd) \<Rightarrow> (svc\<lparr>bess_controller := Some bc'\<rparr>, Some cmd))))"

text \<open>
  \<open>create_session\<close>: look the charger and the connector up, mark the connector occupied,
  insert the session row, start the session in the load manager, run the battery policy.
  Each step is committed before the next, so an exception leaves the state reached so far.
\<close>

definition create_session ::
  "SessionService \<Rightarrow> string \<Rightarrow> string \<Rightarrow> int \<Rightarrow> rat \<Rightarrow> nat
     \<Rightarrow> SessionService \<times> (py_error + rat)" where
  "create_session svc session_id charger_id' connector_id' vehicle_max_power now =
     (if charger_id' \<notin> set (db_chargers (db svc)) then
        (svc, Inl (ChargerNotFound charger_id'))
      else case map_of (db_connectors (db svc)) (charger_id', connector_id') of
        None \<Rightarrow> (svc, Inl (ConnectorNotFound charger_id' connector_id'))
      | Some connector_status \<Rightarrow>
          (let db1 = (db svc)\<lparr>db_connectors :=
                        AList.update (charger_id', connector_id') OCCUPIED (db_connectors (db svc))\<rparr>
           in if session_id \<in> set (db_sessions db1) then
                (svc\<lparr>db := db1\<rparr>, Inl IntegrityError)
              else
                (let db2 = db1\<lparr>db_sessions := db_sessions db1 @ [session_id]\<rparr>
                 in case handle_session_start (load_manager svc) session_id charger_id'
                           connector_id' vehicle_max_power now of
                      (lm', Inl e) \<Rightarrow> (svc\<lparr>load_manager := lm', db := db2\<rparr>, Inl e)
                    | (lm', Inr allocated) \<Rightarrow>
                        (fst (optimize_bess_usage (svc\<lparr>load_manager := lm', db := db2\<rparr>)),
                         Inr allocated))))"


section \<open>Example configurations\<close>

text \<open>The battery of the boost scenario: 200 kWh, 100 kW, minimum SOC 10 percent, at 80
  percent.\<close>

definition battery_s3 :: BatteryConfig where
  "battery_s3 = \<lparr> initialCapacity = 200, battery_power = 100, minSOC = 10, maxSOC = 100 \<rparr>"

definition bess_s3 :: BESSController where
  "bess_s3 = \<lparr> bess_config = battery_s3, current_soc = 80, current_power = 0, mode = IDLE \<rparr>"

text \<open>The station of the boost scenario: grid 400 kW, static load 3 kW, two chargers of
  200 kW with two connectors each, and four sessions of 150 kW.\<close>

definition connector_cfg :: "int \<Rightarrow> ConnectorConfig" where
  "connector_cfg n = \<lparr> connector_id = n, connector_type = CCS2, max_power = 150 \<rparr>"

definition charger_cfg :: "string \<Rightarrow> ChargerConfig" where
  "charger_cfg c = \<lparr> charger_id = c, maxPower = 200, connectors = [connector_cfg 1, connector_cfg 2] \<rparr>"

definition station_s3 :: StationConfig where
  "station_s3 = \<lparr> stationId = ''ELECTRA'', gridCapacity = 400,
                   chargers = [charger_cfg ''CP001'', charger_cfg ''CP002''],
                   battery = Some battery_s3, staticLoad = 3 \<rparr>"

definition new_session :: "string \<Rightarrow> string \<Rightarrow> int \<Rightarrow> rat \<Rightarrow> ChargingSession" where
  "new_session sid c n v =
     \<lparr> sessionId = sid, chargerId = c, connectorId = n, status = ACTIVE, startTime = 0,
       endTime = None, vehicleMaxPower = v, allocatedPower = 0, consumedPower = 0,
       offeredPower = 0, totalEnergy = 0, vehicleSoc = None \<rparr>"

definition four_sessions :: session_dict where
  "four_sessions =
     [(''S1'', new_session ''S1'' ''CP001'' 1 150), (''S2'', new_session ''S2'' ''CP001'' 2 150),
      (''S3'', new_session ''S3'' ''CP002'' 1 150), (''S4'', new_session ''S4'' ''CP002'' 2 150)]"

definition empty_db :: Database where
  "empty_db = \<lparr> db_chargers = [], db_connectors = [], db_sessions = [] \<rparr>"

text \<open>Three services over that station: a battery left in boost mode at 99 percent with
  no session, a battery at its minimum SOC under four sessions, and a battery at 60
  percent with one session drawing 20 kW.\<close>

definition svc_boost_nearly_full :: SessionService where
  "svc_boost_nearly_full =
     \<lparr> load_manager = \<lparr> config = station_s3, sessions = [] \<rparr>,
       bess_controller = Some (bess_s3\<lparr>current_soc := 99, mode := BOOST\<rparr>),
       db = empty_db \<rparr>"

definition svc_depleted :: SessionService where
  "svc_depleted =
     \<lparr> load_manager = \<lparr> config = station_s3, sessions = four_sessions \<rparr>,
       bess_controller = Some (bess_s3\<lparr>current_soc := 10\<rparr>),
       db = empty_db \<rparr>"

definition svc_one_session :: SessionService where
  "svc_one_session =
     \<lparr> load_manager = \<lparr> config = station_s3,
          sessions = [(''S1'', (new_session ''S1'' ''CP001'' 1 150)\<lparr>consumedPower := 20\<rparr>)] \<rparr>,
       bess_controller = Some (bess_s3\<lparr>current_soc := 60\<rparr>),
       db = empty_db \<rparr>"

text \<open>Load managers over that station: the four sessions; one session whose vehicle
  accepts 7.46 kW; one session on a charger the configuration does not list, with a
  negative vehicle power; and the same unknown charger under a grid capacity of 2 kW,
  below the static load.\<close>

definition lm_four :: LoadManagementAlgorithm where
  "lm_four = \<lparr> config = station_s3, sessions = four_sessions \<rparr>"

definition lm_small :: LoadManagementAlgorithm where
  "lm_small = \<lparr> config = station_s3,
                sessions = [(''S1'', new_session ''S1'' ''CP001'' 1 (373 / 50))] \<rparr>"

definition lm_unknown_negative :: LoadManagementAlgorithm where
  "lm_unknown_negative = \<lparr> config = station_s3,
                sessions = [(''S1'', new_session ''S1'' ''CP999'' 1 (- 5))] \<rparr>"

definition lm_unknown_tiny_grid :: LoadManagementAlgorithm where
  "lm_unknown_tiny_grid = \<lparr> config = station_s3\<lparr>gridCapacity := 2\<rparr>,
                sessions = [(''S1'', new_session ''S1'' ''CP999'' 1 150)] \<rparr>"

definition lm_unknown_mixed :: LoadManagementAlgorithm where
  "lm_unknown_mixed = \<lparr> config = station_s3,
                sessions = [(''S1'', new_session ''S1'' ''CP001'' 1 150),
                            (''S2'', new_session ''S2'' ''CP999'' 1 150)] \<rparr>"

definition allocation_of :: "ChargingSession \<Rightarrow> rat \<Rightarrow> PowerAllocation" where
  "allocation_of s p =
     \<lparr> pa_sessionId = sessionId s, pa_chargerId = chargerId s, pa_connectorId = connectorId s,
       pa_allocatedPower = p, pa_consumedPower = consumedPower s,
       pa_vehicleMaxPower = vehicleMaxPower s \<rparr>"

text \<open>An empty load manager; a service whose connector 1 of CP001 is occupied by the
  session S1; and a service whose session S1 has 5 kWh of energy stored.\<close>

definition lm_empty :: LoadManagementAlgorithm where
  "lm_empty = \<lparr> config = station_s3, sessions = [] \<rparr>"

definition db_s3 :: Database where
  "db_s3 = \<lparr> db_chargers = [''CP001'', ''CP002''],
             db_connectors = [((''CP001'', 1), OCCUPIED), ((''CP001'', 2), AVAILABLE),
                              ((''CP002'', 1), AVAILABLE), ((''CP002'', 2), AVAILABLE)],
             db_sessions = [''S1''] \<rparr>"

definition svc_busy :: SessionService where
  "svc_busy =
     \<lparr> load_manager = \<lparr> config = station_s3,
          sessions = [(''S1'', (new_session ''S1'' ''CP001'' 1 150)\<lparr>allocatedPower := 150\<rparr>)] \<rparr>,
       bess_controller = Some (init_bess_controller battery_s3),
       db = db_s3 \<rparr>"


section \<open>Facts about the example configurations\<close>

lemma new_session_simps:
  "sessionId (new_session a b c v) = a" "chargerId (new_session a b c v) = b"
  "connectorId (new_session a b c v) = c" "vehicleMaxPower (new_session a b c v) = v"
  "consumedPower (new_session a b c v) = 0" "status (new_session a b c v) = ACTIVE"
  "allocatedPower (new_session a b c v) = 0" "offeredPower (new_session a b c v) = 0"
  "totalEnergy (new_session a b c v) = 0"
  by (simp_all add: new_session_def)

lemma station_s3_simps:
  "gridCapacity station_s3 = 400" "staticLoad station_s3 = 3" "battery station_s3 = Some battery_s3"
  by (simp_all add: station_s3_def)

lemma demand_four: "total_demand_of \<lparr> config = station_s3, sessions = four_sessions \<rparr> four_sessions = 400"
  by (simp add: total_demand_of_def dict_values_def four_sessions_def new_session_def
        session_demand_def get_charger_connector_limit_def active_connectors_def
        station_s3_def charger_cfg_def)

lemma consumed_four: "total_consumed_of \<lparr> config = station_s3, sessions = four_sessions \<rparr> = 0"
  by (simp add: total_consumed_of_def dict_values_def four_sessions_def new_session_def)

section \<open>Properties of the allocator\<close>

lemma floor_rat_numeral_div:
  "\<lfloor>numeral a / numeral b :: rat\<rfloor> = numeral a div numeral b"
  using floor_divide_of_int_eq [of "numeral a" "numeral b", where ?'a = rat] by simp

lemma round_half_even_bounds:
  "of_int (round_half_even y) \<le> y + 1 / 2 \<and> y - 1 / 2 \<le> of_int (round_half_even y)"
proof -
  define f where "f = \<lfloor>y\<rfloor>"
  have lo: "of_int f \<le> y" and hi: "y < of_int f + 1"
    unfolding f_def by linarith+
  consider (down) "y - of_int f < 1 / 2" | (up) "1 / 2 < y - of_int f" | (tie) "y - of_int f = 1 / 2"
    by linarith
  then show ?thesis
  proof cases
    case down
    then have "round_half_even y = f"
      by (simp add: round_half_even_def f_def Let_def)
    with lo down show ?thesis by simp
  next
    case up
    then have "round_half_even y = f + 1"
      by (simp add: round_half_even_def f_def Let_def)
    with hi up show ?thesis by simp
  next
    case tie
    then have "round_half_even y = f \<or> round_half_even y = f + 1"
      by (simp add: round_half_even_def f_def Let_def)
    with tie show ?thesis by auto
  qed
qed

lemma round1_upper: "round1 x \<le> x + 1 / 20"
  using round_half_even_bounds [of "x * 10"] by (simp add: round1_def field_simps)

lemma round1_lower: "x - 1 / 20 \<le> round1 x"
  using round_half_even_bounds [of "x * 10"] by (simp add: round1_def field_simps)

lemma round1_zero: "round1 0 = 0"
  by (simp add: round1_def round_half_even_def)

lemma sum_round1_upper:
  "sum_list (map (\<lambda>s. round1 (g s)) xs) \<le> sum_list (map g xs) + of_nat (length xs) / 20"
proof (induction xs)
  case Nil
  then show ?case by simp
next
  case (Cons x xs)
  have "round1 (g x) \<le> g x + 1 / 20"
    by (rule round1_upper)
  with Cons show ?case
    by (simp add: field_simps)
qed

lemma allocated_sum:
  "sum_list (map pa_allocatedPower (map (make_allocation lm f) xs))
     = sum_list (map (\<lambda>s. round1 (session_demand lm s * f)) xs)"
  by (simp add: make_allocation_def comp_def)

lemma allocated_sum_bound:
  "sum_list (map pa_allocatedPower (map (make_allocation lm f) (dict_values ss)))
     \<le> total_demand_of lm ss * f + of_nat (length ss) / 20"
proof -
  have "sum_list (map (\<lambda>s. round1 (session_demand lm s * f)) (dict_values ss))
          \<le> sum_list (map (\<lambda>s. session_demand lm s * f) (dict_values ss))
             + of_nat (length (dict_values ss)) / 20"
    by (rule sum_round1_upper)
  moreover have "sum_list (map (\<lambda>s. session_demand lm s * f) (dict_values ss))
          = total_demand_of lm ss * f"
    by (simp add: total_demand_of_def sum_list_mult_const)
  moreover have "length (dict_values ss) = length ss"
    by (simp add: dict_values_def)
  ultimately show ?thesis
    by (simp only: allocated_sum)
qed

lemma total_available_le:
  assumes "\<forall>b. bess_status = Some b \<longrightarrow> battery (config lm) = None \<longrightarrow> 0 \<le> availableDischarge b"
  shows "total_available_power lm bess_status
           \<le> (of_int (gridCapacity (config lm)) - staticLoad (config lm))
              + (case bess_status of None \<Rightarrow> 0 | Some b \<Rightarrow> availableDischarge b)"
  using assms by (auto simp: total_available_power_def Let_def split: option.splits)

text \<open>
  Claim C1 (grid compliance with rounding slack). For every non-empty set of sessions,
  every topology and every optional battery snapshot, the allocated powers the allocator
  returns sum to at most \<open>gridCapacity - staticLoad\<close> plus the snapshot's available
  discharge power (0 without a snapshot) plus 0.1 kW per session. A snapshot given for a
  station that has no battery is taken to report a discharge power that is not negative.
\<close>

theorem grid_compliance:
  assumes "calculate_power_allocation lm ss bess_status = Inr allocations"
    and "ss \<noteq> []"
    and "\<And>b. bess_status = Some b \<Longrightarrow> battery (config lm) = None \<Longrightarrow> 0 \<le> availableDischarge b"
  shows "sum_list (map pa_allocatedPower allocations)
           \<le> (of_int (gridCapacity (config lm)) - staticLoad (config lm))
              + (case bess_status of None \<Rightarrow> 0 | Some b \<Rightarrow> availableDischarge b)
              + (1 / 10) * of_nat (length ss)"
proof -
  let ?ta = "total_available_power lm bess_status"
  let ?td = "total_demand_of lm ss"
  have slack: "(of_nat (length ss) :: rat) / 20 \<le> (1 / 10) * of_nat (length ss)"
    by simp
  have "sum_list (map pa_allocatedPower allocations) \<le> ?ta + of_nat (length ss) / 20"
  proof (cases "?td \<le> ?ta")
    case True
    with assms(1,2) have "allocations = map (make_allocation lm 1) (dict_values ss)"
      by (auto simp: calculate_power_allocation_def Let_def)
    with allocated_sum_bound [of lm 1 ss] True show ?thesis
      by simp
  next
    case False
    with assms(1,2) have nz: "?td \<noteq> 0"
      and a: "allocations = map (make_allocation lm (?ta / ?td)) (dict_values ss)"
      by (auto simp: calculate_power_allocation_def Let_def split: if_splits)
    from nz have "?td * (?ta / ?td) = ?ta"
      by simp
    with allocated_sum_bound [of lm "?ta / ?td" ss] a show ?thesis
      by simp
  qed
  moreover have "?ta \<le> (of_int (gridCapacity (config lm)) - staticLoad (config lm))
              + (case bess_status of None \<Rightarrow> 0 | Some b \<Rightarrow> availableDischarge b)"
    using assms(3) by (intro total_available_le) blast
  ultimately show ?thesis
    using slack by linarith
qed

lemma limit_four:
  "s \<in> set (dict_values four_sessions) \<Longrightarrow> get_charger_connector_limit lm_four s = 100"
  by (auto simp: lm_four_def four_sessions_def dict_values_def new_session_def
        get_charger_connector_limit_def active_connectors_def station_s3_def charger_cfg_def)

lemma demand_four_each:
  "s \<in> set (dict_values four_sessions) \<Longrightarrow> session_demand lm_four s = 100"
  using limit_four [of s]
  by (auto simp: session_demand_def four_sessions_def dict_values_def new_session_def)

lemma round1_four: "round1 (100 * (397 / 400)) = 496 / 5"
  by (simp add: round1_def round_half_even_def Let_def floor_rat_numeral_div)

lemma allocation_four:
  "calculate_power_allocation lm_four four_sessions None
     = Inr (map (\<lambda>s. allocation_of s (496 / 5)) (dict_values four_sessions))"
proof -
  have td: "total_demand_of lm_four four_sessions = 400"
    using demand_four by (simp add: lm_four_def)
  have ta: "total_available_power lm_four None = 397"
    by (simp add: total_available_power_def lm_four_def station_s3_simps)
  have ne: "four_sessions \<noteq> []"
    by (simp add: four_sessions_def)
  have "map (make_allocation lm_four (397 / 400)) (dict_values four_sessions)
          = map (\<lambda>s. allocation_of s (496 / 5)) (dict_values four_sessions)"
    using round1_four
    by (intro map_cong) (simp_all add: make_allocation_def allocation_of_def demand_four_each)
  then show ?thesis
    by (simp add: calculate_power_allocation_def td ta ne)
qed

lemma round1_hundred: "round1 (100 * 1) = 100"
  by (simp add: round1_def round_half_even_def Let_def)

lemma allocation_four_boost:
  "calculate_power_allocation lm_four four_sessions (Some (get_status bess_s3))
     = Inr (map (\<lambda>s. allocation_of s 100) (dict_values four_sessions))"
proof -
  have td: "total_demand_of lm_four four_sessions = 400"
    using demand_four by (simp add: lm_four_def)
  have ta: "total_available_power lm_four (Some (get_status bess_s3)) = 497"
    by (simp add: total_available_power_def lm_four_def station_s3_simps get_status_def
          calculate_available_discharge_def calculate_available_energy_def bess_s3_def battery_s3_def)
  have ne: "four_sessions \<noteq> []"
    by (simp add: four_sessions_def)
  have "map (make_allocation lm_four 1) (dict_values four_sessions)
          = map (\<lambda>s. allocation_of s 100) (dict_values four_sessions)"
    using round1_hundred
    by (intro map_cong) (simp_all add: make_allocation_def allocation_of_def demand_four_each)
  then show ?thesis
    by (simp add: calculate_power_allocation_def td ta ne)
qed

theorem grid_compliance_witness:
  "sum_list (map pa_allocatedPower (map (\<lambda>s. allocation_of s 100) (dict_values four_sessions)))
     \<le> (of_int (gridCapacity (config lm_four)) - staticLoad (config lm_four))
        + availableDischarge (get_status bess_s3)
        + (1 / 10) * of_nat (length four_sessions)"
proof -
  have ne: "four_sessions \<noteq> []"
    by (simp add: four_sessions_def)
  have bat: "battery (config lm_four) \<noteq> None"
    by (simp add: lm_four_def station_s3_simps)
  from grid_compliance [OF allocation_four_boost ne] bat show ?thesis
    by simp
qed

text \<open>
  Claim C2 (per-session demand cap), as stated: the allocated power of a session is at
  most its demand. A single session whose vehicle accepts 7.46 kW on a 200 kW charger has
  the demand 7.46 kW and is allocated 7.5 kW, the demand rounded to one decimal.
\<close>

theorem allocation_exceeds_demand:
  "calculate_power_allocation lm_small (sessions lm_small) None
     = Inr [allocation_of (new_session ''S1'' ''CP001'' 1 (373 / 50)) (15 / 2)]
   \<and> session_demand lm_small (new_session ''S1'' ''CP001'' 1 (373 / 50)) = 373 / 50
   \<and> \<not> ((15 / 2 :: rat) \<le> 373 / 50)"
proof -
  have d: "session_demand lm_small (new_session ''S1'' ''CP001'' 1 (373 / 50)) = 373 / 50"
    by (simp add: lm_small_def new_session_def session_demand_def dict_values_def
          get_charger_connector_limit_def active_connectors_def station_s3_def charger_cfg_def)
  have r: "round1 (373 / 50) = 15 / 2"
    by (simp add: round1_def round_half_even_def Let_def floor_rat_numeral_div)
  have ta: "total_available_power lm_small None = 397"
    by (simp add: total_available_power_def lm_small_def station_s3_simps)
  have ss: "sessions lm_small = [(''S1'', new_session ''S1'' ''CP001'' 1 (373 / 50))]"
    by (simp add: lm_small_def)
  have "calculate_power_allocation lm_small (sessions lm_small) None
     = Inr [allocation_of (new_session ''S1'' ''CP001'' 1 (373 / 50)) (15 / 2)]"
    by (simp add: calculate_power_allocation_def total_demand_of_def dict_values_def
          make_allocation_def allocation_of_def Let_def ss d r ta)
  with d show ?thesis by simp
qed

lemma limit_nonneg:
  assumes "\<forall>c \<in> set (chargers (config lm)). 0 \<le> maxPower c"
  shows "0 \<le> get_charger_connector_limit lm s"
proof (cases "find (\<lambda>c. charger_id c = chargerId s) (chargers (config lm))")
  case None
  then show ?thesis
    by (simp add: get_charger_connector_limit_def)
next
  case (Some c)
  then have "c \<in> set (chargers (config lm))"
    by (auto simp: find_Some_iff)
  with assms have "0 \<le> maxPower c"
    by blast
  with Some show ?thesis
    by (simp add: get_charger_connector_limit_def Let_def)
qed

lemma demand_nonneg:
  assumes "\<forall>c \<in> set (chargers (config lm)). 0 \<le> maxPower c" and "0 \<le> vehicleMaxPower s"
  shows "0 \<le> session_demand lm s"
  using limit_nonneg [OF assms(1), of s] assms(2) by (simp add: session_demand_def)

lemma total_demand_nonneg:
  assumes "\<forall>c \<in> set (chargers (config lm)). 0 \<le> maxPower c"
    and "\<forall>s \<in> set (dict_values ss). 0 \<le> vehicleMaxPower s"
  shows "0 \<le> total_demand_of lm ss"
  unfolding total_demand_of_def
  using assms by (intro sum_list_nonneg) (auto simp: demand_nonneg)

text \<open>
  Claim C2, amended: when no vehicle power and no charger power is negative, the
  allocator returns one allocation per session, in the order of the sessions, and the
  allocated power of each session is at most its demand plus the rounding slack of
  0.05 kW, where the demand is the smaller of the vehicle's power and the charger's power
  divided by the number of active sessions on the charger.
\<close>

theorem demand_cap_with_rounding:
  assumes "calculate_power_allocation lm ss bess_status = Inr allocations"
    and "\<forall>s \<in> set (dict_values ss). 0 \<le> vehicleMaxPower s"
    and "\<forall>c \<in> set (chargers (config lm)). 0 \<le> maxPower c"
  shows "list_all2 (\<lambda>a s. pa_sessionId a = sessionId s
                      \<and> pa_allocatedPower a \<le> session_demand lm s + 1 / 20)
           allocations (dict_values ss)"
proof -
  let ?ta = "total_available_power lm bess_status"
  let ?td = "total_demand_of lm ss"
  have td0: "0 \<le> ?td"
    using assms(2,3) by (simp add: total_demand_nonneg)
  have step: "list_all2 (\<lambda>a s. pa_sessionId a = sessionId s
                      \<and> pa_allocatedPower a \<le> session_demand lm s + 1 / 20)
           (map (make_allocation lm f) (dict_values ss)) (dict_values ss)" if "f \<le> 1" for f
  proof -
    have "pa_allocatedPower (make_allocation lm f s) \<le> session_demand lm s + 1 / 20"
      if "s \<in> set (dict_values ss)" for s
    proof -
      have "0 \<le> session_demand lm s"
        using assms(2,3) that by (simp add: demand_nonneg)
      with \<open>f \<le> 1\<close> have "session_demand lm s * f \<le> session_demand lm s"
        by (simp add: mult_left_le)
      with round1_upper [of "session_demand lm s * f"] show ?thesis
        by (simp add: make_allocation_def)
    qed
    then show ?thesis
      by (simp add: list_all2_map1 list_all2_same make_allocation_def)
  qed
  show ?thesis
  proof (cases "ss = []")
    case True
    with assms(1) show ?thesis
      by (simp add: calculate_power_allocation_def dict_values_def)
  next
    case ne: False
    show ?thesis
    proof (cases "?td \<le> ?ta")
      case True
      with assms(1) ne have "allocations = map (make_allocation lm 1) (dict_values ss)"
        by (auto simp: calculate_power_allocation_def Let_def)
      with step [of 1] show ?thesis by simp
    next
      case False
      with assms(1) ne have nz: "?td \<noteq> 0"
        and a: "allocations = map (make_allocation lm (?ta / ?td)) (dict_values ss)"
        by (auto simp: calculate_power_allocation_def Let_def split: if_splits)
      from nz td0 have "0 < ?td" by simp
      with False have "?ta / ?td \<le> 1"
        by (simp add: field_simps)
      with step [of "?ta / ?td"] a show ?thesis by simp
    qed
  qed
qed

theorem demand_cap_with_rounding_witness:
  "list_all2 (\<lambda>a s. pa_sessionId a = sessionId s
                \<and> pa_allocatedPower a \<le> session_demand lm_four s + 1 / 20)
     (map (\<lambda>s. allocation_of s (496 / 5)) (dict_values four_sessions)) (dict_values four_sessions)"
proof -
  have v: "\<forall>s \<in> set (dict_values four_sessions). 0 \<le> vehicleMaxPower s"
    by (simp add: four_sessions_def dict_values_def new_session_def)
  have c: "\<forall>c \<in> set (chargers (config lm_four)). 0 \<le> maxPower c"
    by (simp add: lm_four_def station_s3_def charger_cfg_def)
  show ?thesis
    by (rule demand_cap_with_rounding [OF allocation_four v c])
qed

lemma unknown_charger_limit:
  assumes "find (\<lambda>c. charger_id c = chargerId s) (chargers (config lm)) = None"
  shows "get_charger_connector_limit lm s = 0"
  using assms by (simp add: get_charger_connector_limit_def)

lemma unknown_charger_demand:
  assumes "find (\<lambda>c. charger_id c = chargerId s) (chargers (config lm)) = None"
    and "0 \<le> vehicleMaxPower s"
  shows "session_demand lm s = 0"
  using assms by (simp add: session_demand_def unknown_charger_limit)

lemma total_demand_without:
  assumes "session_demand lm s = 0"
  shows "total_demand_of lm (xs @ (k, s) # ys) = total_demand_of lm (xs @ ys)"
  using assms by (simp add: total_demand_of_def dict_values_def)

lemma allocation_list_without:
  "take (length xs) (map (make_allocation lm f) (dict_values (xs @ (k, s) # ys)))
     @ drop (Suc (length xs)) (map (make_allocation lm f) (dict_values (xs @ (k, s) # ys)))
   = map (make_allocation lm f) (dict_values (xs @ ys))"
  by (simp add: dict_values_def)

lemma allocation_nth:
  "map (make_allocation lm f) (dict_values (xs @ (k, s) # ys)) ! length xs = make_allocation lm f s"
  by (simp add: dict_values_def nth_append)

text \<open>
  Claim C10 (unknown charger), as stated, fails twice. A session on a charger the
  configuration does not list whose vehicle power is -5 kW has the demand
  \<open>min (-5) 0 = -5\<close> and is allocated -5 kW, not 0. And with a grid capacity of 2 kW
  below the static load of 3 kW, such a session alone has a total demand of 0 above the
  available -1 kW, and the allocator raises \<open>ZeroDivisionError\<close>.
\<close>

theorem unknown_charger_counterexample:
  "calculate_power_allocation lm_unknown_negative (sessions lm_unknown_negative) None
     = Inr [allocation_of (new_session ''S1'' ''CP999'' 1 (- 5)) (- 5)]
   \<and> calculate_power_allocation lm_unknown_tiny_grid (sessions lm_unknown_tiny_grid) None
     = Inl ZeroDivisionError"
proof -
  have f1: "find (\<lambda>c. charger_id c = chargerId (new_session ''S1'' ''CP999'' 1 v))
              (chargers (config lm_unknown_negative)) = None" for v
    by (simp add: lm_unknown_negative_def station_s3_def charger_cfg_def new_session_simps)
  have d1: "session_demand lm_unknown_negative (new_session ''S1'' ''CP999'' 1 (- 5)) = - 5"
    by (simp add: session_demand_def unknown_charger_limit [OF f1] new_session_simps)
  have r: "round1 (- 5) = - 5"
    by (simp add: round1_def round_half_even_def Let_def)
  have ta1: "total_available_power lm_unknown_negative None = 397"
    by (simp add: total_available_power_def lm_unknown_negative_def station_s3_simps)
  have ss1: "sessions lm_unknown_negative = [(''S1'', new_session ''S1'' ''CP999'' 1 (- 5))]"
    by (simp add: lm_unknown_negative_def)
  have a: "calculate_power_allocation lm_unknown_negative (sessions lm_unknown_negative) None
     = Inr [allocation_of (new_session ''S1'' ''CP999'' 1 (- 5)) (- 5)]"
    by (simp add: calculate_power_allocation_def total_demand_of_def dict_values_def
          make_allocation_def allocation_of_def Let_def ss1 d1 r ta1)
  have f2: "find (\<lambda>c. charger_id c = chargerId (new_session ''S1'' ''CP999'' 1 150))
              (chargers (config lm_unknown_tiny_grid)) = None"
    by (simp add: lm_unknown_tiny_grid_def station_s3_def charger_cfg_def new_session_simps)
  have d2: "session_demand lm_unknown_tiny_grid (new_session ''S1'' ''CP999'' 1 150) = 0"
    by (rule unknown_charger_demand [OF f2]) (simp add: new_session_simps)
  have ta2: "total_available_power lm_unknown_tiny_grid None = - 1"
    by (simp add: total_available_power_def lm_unknown_tiny_grid_def station_s3_def)
  have ss2: "sessions lm_unknown_tiny_grid = [(''S1'', new_session ''S1'' ''CP999'' 1 150)]"
    by (simp add: lm_unknown_tiny_grid_def)
  have b: "calculate_power_allocation lm_unknown_tiny_grid (sessions lm_unknown_tiny_grid) None
     = Inl ZeroDivisionError"
    by (simp add: calculate_power_allocation_def total_demand_of_def dict_values_def
          Let_def ss2 d2 ta2)
  from a b show ?thesis by simp
qed

text \<open>
  Claim C10, amended: for every session whose charger the configuration does not list
  and whose vehicle power is not negative, the per-connector limit is 0 and the demand is
  0; whenever the allocator returns, that session is allocated 0 kW and the other
  sessions are allocated what they would be without it; and the allocator returns
  whenever the total available power is not negative.
\<close>

theorem unknown_charger_zero_allocation:
  assumes "find (\<lambda>c. charger_id c = chargerId s) (chargers (config lm)) = None"
    and "0 \<le> vehicleMaxPower s"
  shows "get_charger_connector_limit lm s = 0
       \<and> session_demand lm s = 0
       \<and> (\<forall>allocations.
            calculate_power_allocation lm (xs @ (k, s) # ys) bess_status = Inr allocations \<longrightarrow>
              pa_sessionId (allocations ! length xs) = sessionId s
            \<and> pa_allocatedPower (allocations ! length xs) = 0
            \<and> calculate_power_allocation lm (xs @ ys) bess_status
                = Inr (take (length xs) allocations @ drop (Suc (length xs)) allocations))
       \<and> (0 \<le> total_available_power lm bess_status \<longrightarrow>
            (\<exists>allocations.
               calculate_power_allocation lm (xs @ (k, s) # ys) bess_status = Inr allocations))"
proof (intro conjI allI impI)
  show "get_charger_connector_limit lm s = 0"
    by (rule unknown_charger_limit [OF assms(1)])
  show d: "session_demand lm s = 0"
    by (rule unknown_charger_demand [OF assms])
  let ?full = "xs @ (k, s) # ys"
  let ?ta = "total_available_power lm bess_status"
  have td: "total_demand_of lm ?full = total_demand_of lm (xs @ ys)"
    by (rule total_demand_without [OF d])
  {
    fix allocations
    assume r: "calculate_power_allocation lm ?full bess_status = Inr allocations"
    obtain f where a: "allocations = map (make_allocation lm f) (dict_values ?full)"
      and others: "xs @ ys \<noteq> [] \<Longrightarrow>
         calculate_power_allocation lm (xs @ ys) bess_status
           = Inr (map (make_allocation lm f) (dict_values (xs @ ys)))"
    proof (cases "total_demand_of lm ?full \<le> ?ta")
      case True
      with r have "allocations = map (make_allocation lm 1) (dict_values ?full)"
        by (auto simp: calculate_power_allocation_def Let_def)
      moreover have "calculate_power_allocation lm (xs @ ys) bess_status
           = Inr (map (make_allocation lm 1) (dict_values (xs @ ys)))" if "xs @ ys \<noteq> []"
        using True that unfolding td by (auto simp: calculate_power_allocation_def Let_def)
      ultimately show ?thesis
        using that by blast
    next
      case False
      with r have nz: "total_demand_of lm ?full \<noteq> 0"
        and "allocations = map (make_allocation lm (?ta / total_demand_of lm ?full)) (dict_values ?full)"
        by (auto simp: calculate_power_allocation_def Let_def split: if_splits)
      moreover have "calculate_power_allocation lm (xs @ ys) bess_status
           = Inr (map (make_allocation lm (?ta / total_demand_of lm ?full)) (dict_values (xs @ ys)))"
        if "xs @ ys \<noteq> []"
        using False nz that unfolding td by (auto simp: calculate_power_allocation_def Let_def)
      ultimately show ?thesis
        using that by blast
    qed
    have nth: "allocations ! length xs = make_allocation lm f s"
      unfolding a by (rule allocation_nth)
    show "pa_sessionId (allocations ! length xs) = sessionId s"
      unfolding nth by (simp add: make_allocation_def)
    show "pa_allocatedPower (allocations ! length xs) = 0"
      unfolding nth by (simp add: make_allocation_def d round1_zero)
    show "calculate_power_allocation lm (xs @ ys) bess_status
            = Inr (take (length xs) allocations @ drop (Suc (length xs)) allocations)"
    proof (cases "xs @ ys = []")
      case True
      then show ?thesis
        unfolding a by (simp add: calculate_power_allocation_def dict_values_def)
    next
      case False
      from others [OF False] show ?thesis
        unfolding a allocation_list_without .
    qed
  }
  assume "0 \<le> ?ta"
  then have "total_demand_of lm ?full \<le> ?ta \<or> total_demand_of lm ?full \<noteq> 0"
    by linarith
  then show "\<exists>allocations. calculate_power_allocation lm ?full bess_status = Inr allocations"
    by (auto simp: calculate_power_allocation_def Let_def)
qed

lemma mixed_allocation:
  "calculate_power_allocation lm_unknown_mixed
     ([(''S1'', new_session ''S1'' ''CP001'' 1 150)] @ (''S2'', new_session ''S2'' ''CP999'' 1 150) # [])
     None
   = Inr [allocation_of (new_session ''S1'' ''CP001'' 1 150) 150,
          allocation_of (new_session ''S2'' ''CP999'' 1 150) 0]"
proof -
  have d1: "session_demand lm_unknown_mixed (new_session ''S1'' ''CP001'' 1 150) = 150"
    by (simp add: lm_unknown_mixed_def new_session_def session_demand_def dict_values_def
          get_charger_connector_limit_def active_connectors_def station_s3_def charger_cfg_def)
  have d2: "session_demand lm_unknown_mixed (new_session ''S2'' ''CP999'' 1 150) = 0"
    by (simp add: lm_unknown_mixed_def new_session_def session_demand_def dict_values_def
          get_charger_connector_limit_def active_connectors_def station_s3_def charger_cfg_def)
  have r: "round1 150 = 150"
    by (simp add: round1_def round_half_even_def Let_def)
  have ta: "total_available_power lm_unknown_mixed None = 397"
    by (simp add: total_available_power_def lm_unknown_mixed_def station_s3_simps)
  show ?thesis
    by (simp add: calculate_power_allocation_def total_demand_of_def dict_values_def
          make_allocation_def allocation_of_def Let_def d1 d2 r ta round1_zero)
qed

theorem unknown_charger_zero_allocation_witness:
  "get_charger_connector_limit lm_unknown_mixed (new_session ''S2'' ''CP999'' 1 150) = 0
   \<and> session_demand lm_unknown_mixed (new_session ''S2'' ''CP999'' 1 150) = 0
   \<and> calculate_power_allocation lm_unknown_mixed [(''S1'', new_session ''S1'' ''CP001'' 1 150)] None
       = Inr [allocation_of (new_session ''S1'' ''CP001'' 1 150) 150]"
proof -
  have f: "find (\<lambda>c. charger_id c = chargerId (new_session ''S2'' ''CP999'' 1 150))
              (chargers (config lm_unknown_mixed)) = None"
    by (simp add: lm_unknown_mixed_def station_s3_def charger_cfg_def new_session_simps)
  have v: "0 \<le> vehicleMaxPower (new_session ''S2'' ''CP999'' 1 150)"
    by (simp add: new_session_simps)
  from unknown_charger_zero_allocation [OF f v, of "[(''S1'', new_session ''S1'' ''CP001'' 1 150)]"
         "''S2''" "[]" None] mixed_allocation
  show ?thesis
    by simp
qed

section \<open>Properties of the session handlers\<close>

lemma map_of_set_allocated:
  "map_of (set_allocated a d) k
     = map_option (\<lambda>s. if k = pa_sessionId a then s\<lparr>allocatedPower := pa_allocatedPower a\<rparr> else s)
         (map_of d k)"
  by (cases "map_of d (pa_sessionId a)"; cases "map_of d k") (auto simp: set_allocated_def update_conv')


lemma fold_set_allocated_keeps:
  "map_of d k = Some s \<Longrightarrow>
     \<exists>v. map_of (fold set_allocated allocations d) k = Some (s\<lparr>allocatedPower := v\<rparr>)"
proof (induction allocations arbitrary: d s)
  case Nil
  then have "map_of (fold set_allocated [] d) k = Some (s\<lparr>allocatedPower := allocatedPower s\<rparr>)"
    by simp
  then show ?case by blast
next
  case (Cons a allocations)
  have "\<exists>v0. map_of (set_allocated a d) k = Some (s\<lparr>allocatedPower := v0\<rparr>)"
  proof (cases "k = pa_sessionId a")
    case True
    with Cons.prems
    have "map_of (set_allocated a d) k = Some (s\<lparr>allocatedPower := pa_allocatedPower a\<rparr>)"
      by (simp add: map_of_set_allocated)
    then show ?thesis by blast
  next
    case False
    with Cons.prems
    have "map_of (set_allocated a d) k = Some (s\<lparr>allocatedPower := allocatedPower s\<rparr>)"
      by (simp add: map_of_set_allocated)
    then show ?thesis by blast
  qed
  then obtain v0 where "map_of (set_allocated a d) k = Some (s\<lparr>allocatedPower := v0\<rparr>)"
    by blast
  from Cons.IH [OF this] show ?case
    by simp
qed


lemma optimize_keeps_load_manager:
  "load_manager (fst (optimize_bess_usage svc)) = load_manager svc"
  by (simp add: optimize_bess_usage_def Let_def split: option.splits prod.splits)

lemma handle_session_start_registers:
  assumes "handle_session_start lm session_id c n v now = (lm', r)"
  shows "(\<exists>s. map_of (sessions lm') session_id = Some s
              \<and> chargerId s = c \<and> connectorId s = n \<and> status s = ACTIVE)
       \<and> (\<forall>k s. k \<noteq> session_id \<and> map_of (sessions lm) k = Some s \<longrightarrow>
             (\<exists>s'. map_of (sessions lm') k = Some s'
                 \<and> chargerId s' = chargerId s \<and> connectorId s' = connectorId s
                 \<and> status s' = status s))
       \<and> (r = Inl ZeroDivisionError \<or> (\<exists>a. r = Inr a))"
proof -
  define new where "new =
      \<lparr> sessionId = session_id, chargerId = c, connectorId = n,
        status = ACTIVE, startTime = now, endTime = None,
        vehicleMaxPower = v, allocatedPower = 0, consumedPower = 0,
        offeredPower = 0, totalEnergy = 0, vehicleSoc = None \<rparr>"
  define d1 where "d1 = AList.update session_id new (sessions lm)"
  have new_in: "map_of d1 session_id = Some new"
    by (simp add: d1_def update_conv')
  have old_in: "map_of d1 k = map_of (sessions lm) k" if "k \<noteq> session_id" for k
    using that by (simp add: d1_def update_conv')
  have fields: "chargerId new = c" "connectorId new = n" "status new = ACTIVE"
    by (simp_all add: new_def)
  show ?thesis
  proof (cases "calculate_power_allocation (lm\<lparr>sessions := d1\<rparr>) d1 None")
    case (Inl e)
    with assms have lm': "lm' = lm\<lparr>sessions := d1\<rparr>" and r: "r = Inl e"
      by (simp_all add: handle_session_start_def Let_def new_def d1_def)
    from Inl have "e = ZeroDivisionError"
      by (auto simp: calculate_power_allocation_def Let_def split: if_splits)
    with lm' r new_in old_in fields show ?thesis
      by auto
  next
    case (Inr allocations)
    with assms have lm': "sessions lm' = fold set_allocated allocations d1"
      and r: "r = Inr (allocation_for session_id allocations)"
      by (auto simp: handle_session_start_def Let_def new_def d1_def)
    from fold_set_allocated_keeps [OF new_in, of allocations] fields
    have a: "\<exists>s. map_of (sessions lm') session_id = Some s
              \<and> chargerId s = c \<and> connectorId s = n \<and> status s = ACTIVE"
      unfolding lm' by auto
    have b: "\<exists>s'. map_of (sessions lm') k = Some s'
                 \<and> chargerId s' = chargerId s \<and> connectorId s' = connectorId s
                 \<and> status s' = status s"
      if "k \<noteq> session_id" "map_of (sessions lm) k = Some s" for k s
    proof -
      from that have "map_of d1 k = Some s"
        by (simp add: old_in)
      from fold_set_allocated_keeps [OF this, of allocations] show ?thesis
        unfolding lm' by auto
    qed
    from a b r show ?thesis
      by blast
  qed
qed

lemma limit_two_on_charger:
  "get_charger_connector_limit
     \<lparr>config = station_s3,
        sessions = [(''S1'', (new_session ''S1'' ''CP001'' 1 150)\<lparr>allocatedPower := a\<rparr>),
                    (''S2'', new_session ''S2'' ''CP001'' 1 150)]\<rparr>
     (new_session k ''CP001'' n 150\<lparr>allocatedPower := b\<rparr>) = 100"
  by (simp add: new_session_def get_charger_connector_limit_def active_connectors_def
        dict_values_def station_s3_def charger_cfg_def)

lemma start_on_busy_connector:
  "handle_session_start (load_manager svc_busy) ''S2'' ''CP001'' 1 150 0
     = (\<lparr>config = station_s3,
          sessions = [(''S1'', (new_session ''S1'' ''CP001'' 1 150)\<lparr>allocatedPower := 100\<rparr>),
                      (''S2'', (new_session ''S2'' ''CP001'' 1 150)\<lparr>allocatedPower := 100\<rparr>)]\<rparr>,
        Inr 100)"
proof -
  let ?d1 = "[(''S1'', (new_session ''S1'' ''CP001'' 1 150)\<lparr>allocatedPower := 150\<rparr>),
              (''S2'', new_session ''S2'' ''CP001'' 1 150)]"
  let ?lm1 = "\<lparr>config = station_s3, sessions = ?d1\<rparr>"
  have l1: "get_charger_connector_limit ?lm1 ((new_session ''S1'' ''CP001'' 1 150)\<lparr>allocatedPower := 150\<rparr>) = 100"
    by (rule limit_two_on_charger)
  have l2: "get_charger_connector_limit ?lm1 (new_session ''S2'' ''CP001'' 1 150) = 100"
    by (simp add: new_session_def get_charger_connector_limit_def active_connectors_def
          dict_values_def station_s3_def charger_cfg_def)
  have ta: "total_available_power ?lm1 None = 397"
    by (simp add: total_available_power_def station_s3_simps)
  have calc: "calculate_power_allocation ?lm1 ?d1 None
     = Inr [allocation_of ((new_session ''S1'' ''CP001'' 1 150)\<lparr>allocatedPower := 150\<rparr>) 100,
            allocation_of (new_session ''S2'' ''CP001'' 1 150) 100]"
    using round1_hundred
    by (simp add: calculate_power_allocation_def total_demand_of_def dict_values_def
          session_demand_def l1 l2 ta make_allocation_def allocation_of_def Let_def
          new_session_simps)
  have upd: "AList.update ''S2'' (new_session ''S2'' ''CP001'' 1 150)
               (sessions (load_manager svc_busy)) = ?d1"
    by (simp add: svc_busy_def)
  have cfg: "load_manager svc_busy\<lparr>sessions := ?d1\<rparr> = ?lm1"
    by (simp add: svc_busy_def)
  show ?thesis
    unfolding handle_session_start_def Let_def new_session_def [symmetric] upd cfg
    by (simp add: calc) (simp add: set_allocated_def allocation_for_def allocation_of_def new_session_def)
qed

text \<open>
  Claim C4 (busy connector), as stated: a session start on an occupied connector fails
  with \<open>CONNECTOR_BUSY\<close> and changes nothing. With the session S1 active on connector 1
  of CP001 and the connector row marked occupied, starting the session S2 on the same
  connector succeeds: S2 enters the registry, 100 kW are returned for it, and the
  allocation of S1 drops from 150 kW to 100 kW.
\<close>

theorem busy_connector_accepted:
  "create_session svc_busy ''S2'' ''CP001'' 1 150 0
     = (svc_busy\<lparr>load_manager :=
            \<lparr>config = station_s3,
               sessions = [(''S1'', (new_session ''S1'' ''CP001'' 1 150)\<lparr>allocatedPower := 100\<rparr>),
                           (''S2'', (new_session ''S2'' ''CP001'' 1 150)\<lparr>allocatedPower := 100\<rparr>)]\<rparr>,
          db := db_s3\<lparr>db_sessions := [''S1'', ''S2'']\<rparr>\<rparr>,
        Inr 100)"
proof -
  let ?d2 = "[(''S1'', (new_session ''S1'' ''CP001'' 1 150)\<lparr>allocatedPower := 100\<rparr>),
              (''S2'', (new_session ''S2'' ''CP001'' 1 150)\<lparr>allocatedPower := 100\<rparr>)]"
  let ?lm2 = "\<lparr>config = station_s3, sessions = ?d2\<rparr>"
  let ?svc2 = "svc_busy\<lparr>load_manager := ?lm2, db := db_s3\<lparr>db_sessions := [''S1'', ''S2'']\<rparr>\<rparr>"
  have td: "total_demand_of ?lm2 ?d2 = 200"
    by (simp add: total_demand_of_def dict_values_def session_demand_def
          get_charger_connector_limit_def active_connectors_def new_session_def
          station_s3_def charger_cfg_def)
  have tc: "total_consumed_of ?lm2 = 0"
    by (simp add: total_consumed_of_def dict_values_def new_session_def)
  have bc: "bess_controller ?svc2 = Some (init_bess_controller battery_s3)"
    and lm: "load_manager ?svc2 = ?lm2"
    by (simp_all add: svc_busy_def)
  have full: "calculate_charge_opportunity (init_bess_controller battery_s3) g l = 0" for g l
    by (simp add: calculate_charge_opportunity_def init_bess_controller_def battery_s3_def)
  have opt: "optimize_bess_usage ?svc2 = (?svc2, None)"
    unfolding optimize_bess_usage_def bc lm
    by (simp add: td tc full station_s3_simps Let_def)
  have c1: "''CP001'' \<in> set (db_chargers (db svc_busy))"
    and c2: "map_of (db_connectors (db svc_busy)) (''CP001'', 1) = Some OCCUPIED"
    and db1: "(db svc_busy)\<lparr>db_connectors :=
                 AList.update (''CP001'', 1) OCCUPIED (db_connectors (db svc_busy))\<rparr> = db_s3"
    by (simp_all add: svc_busy_def db_s3_def)
  have c3: "''S2'' \<notin> set (db_sessions db_s3)"
    and db2: "db_s3\<lparr>db_sessions := db_sessions db_s3 @ [''S2'']\<rparr>
                = db_s3\<lparr>db_sessions := [''S1'', ''S2'']\<rparr>"
    by (simp_all add: db_s3_def)
  show ?thesis
    unfolding create_session_def Let_def db1
    by (simp add: c1 c2 c3 db2 start_on_busy_connector opt)
qed

lemma create_session_result:
  assumes "c \<in> set (db_chargers (db svc))"
    and "map_of (db_connectors (db svc)) (c, n) = Some connector_status"
    and "session_id \<notin> set (db_sessions (db svc))"
    and "create_session svc session_id c n v now = (svc', r)"
  shows "\<exists>lm'. handle_session_start (load_manager svc) session_id c n v now = (lm', r)
              \<and> load_manager svc' = lm'"
proof -
  define db2 where "db2 = (db svc)\<lparr>db_connectors :=
                              AList.update (c, n) OCCUPIED (db_connectors (db svc)),
                            db_sessions := db_sessions (db svc) @ [session_id]\<rparr>"
  have eq: "create_session svc session_id c n v now =
      (case handle_session_start (load_manager svc) session_id c n v now of
         (lm', Inl e) \<Rightarrow> (svc\<lparr>load_manager := lm', db := db2\<rparr>, Inl e)
       | (lm', Inr allocated) \<Rightarrow>
           (fst (optimize_bess_usage (svc\<lparr>load_manager := lm', db := db2\<rparr>)), Inr allocated))"
    using assms(1,2,3) unfolding db2_def by (simp add: create_session_def Let_def)
  obtain lm' r0 where h: "handle_session_start (load_manager svc) session_id c n v now = (lm', r0)"
    by (cases "handle_session_start (load_manager svc) session_id c n v now")
  show ?thesis
  proof (cases r0)
    case (Inl e)
    with eq h assms(4) have "svc' = svc\<lparr>load_manager := lm', db := db2\<rparr>" and "r = r0"
      by simp_all
    with h show ?thesis by simp
  next
    case (Inr a)
    with eq h assms(4)
    have "svc' = fst (optimize_bess_usage (svc\<lparr>load_manager := lm', db := db2\<rparr>))" and "r = r0"
      by simp_all
    with h show ?thesis
      by (simp add: optimize_keeps_load_manager)
  qed
qed

text \<open>
  Claim C4, amended: a session start is never rejected for a busy connector. When the
  charger and the connector exist and the session identifier is new to the database, the
  new session is in the registry afterwards, active on the requested connector, next to
  every session that was registered before (each on the connector it had, so an occupied
  connector then carries two sessions), and the call returns an allocation unless the
  allocator raises \<open>ZeroDivisionError\<close>.
\<close>

theorem create_session_no_busy_check:
  assumes "c \<in> set (db_chargers (db svc))"
    and "map_of (db_connectors (db svc)) (c, n) = Some connector_status"
    and "session_id \<notin> set (db_sessions (db svc))"
    and "create_session svc session_id c n v now = (svc', r)"
  shows "(\<exists>s. map_of (sessions (load_manager svc')) session_id = Some s
              \<and> chargerId s = c \<and> connectorId s = n \<and> status s = ACTIVE)
       \<and> (\<forall>k s. k \<noteq> session_id \<and> map_of (sessions (load_manager svc)) k = Some s \<longrightarrow>
             (\<exists>s'. map_of (sessions (load_manager svc')) k = Some s'
                 \<and> chargerId s' = chargerId s \<and> connectorId s' = connectorId s
                 \<and> status s' = status s))
       \<and> (r = Inl ZeroDivisionError \<or> (\<exists>a. r = Inr a))"
proof -
  from create_session_result [OF assms] obtain lm' where
    h: "handle_session_start (load_manager svc) session_id c n v now = (lm', r)"
    and lm': "load_manager svc' = lm'"
    by blast
  from handle_session_start_registers [OF h] show ?thesis
    unfolding lm' .
qed

theorem create_session_no_busy_check_witness:
  "(\<exists>s. map_of (sessions (load_manager (fst (create_session svc_busy ''S2'' ''CP001'' 1 150 0)))) ''S2''
            = Some s
        \<and> chargerId s = ''CP001'' \<and> connectorId s = 1 \<and> status s = ACTIVE)
   \<and> (\<exists>s'. map_of (sessions (load_manager (fst (create_session svc_busy ''S2'' ''CP001'' 1 150 0)))) ''S1''
            = Some s'
        \<and> chargerId s' = ''CP001'' \<and> connectorId s' = 1 \<and> status s' = ACTIVE)"
proof -
  have h1: "''CP001'' \<in> set (db_chargers (db svc_busy))"
    by (simp add: svc_busy_def db_s3_def)
  have h2: "map_of (db_connectors (db svc_busy)) (''CP001'', 1) = Some OCCUPIED"
    by (simp add: svc_busy_def db_s3_def)
  have h3: "''S2'' \<notin> set (db_sessions (db svc_busy))"
    by (simp add: svc_busy_def db_s3_def)
  have h4: "create_session svc_busy ''S2'' ''CP001'' 1 150 0
              = (fst (create_session svc_busy ''S2'' ''CP001'' 1 150 0),
                 snd (create_session svc_busy ''S2'' ''CP001'' 1 150 0))"
    by simp
  have old: "''S1'' \<noteq> ''S2'' \<and> map_of (sessions (load_manager svc_busy)) ''S1''
               = Some ((new_session ''S1'' ''CP001'' 1 150)\<lparr>allocatedPower := 150\<rparr>)"
    by (simp add: svc_busy_def)
  note t = create_session_no_busy_check [OF h1 h2 h3 h4]
  have a: "\<exists>s. map_of (sessions (load_manager (fst (create_session svc_busy ''S2'' ''CP001'' 1 150 0)))) ''S2''
            = Some s
        \<and> chargerId s = ''CP001'' \<and> connectorId s = 1 \<and> status s = ACTIVE"
    by (rule t [THEN conjunct1])
  have "\<exists>s'. map_of (sessions (load_manager (fst (create_session svc_busy ''S2'' ''CP001'' 1 150 0)))) ''S1''
            = Some s'
        \<and> chargerId s' = chargerId ((new_session ''S1'' ''CP001'' 1 150)\<lparr>allocatedPower := 150\<rparr>)
        \<and> connectorId s' = connectorId ((new_session ''S1'' ''CP001'' 1 150)\<lparr>allocatedPower := 150\<rparr>)
        \<and> status s' = status ((new_session ''S1'' ''CP001'' 1 150)\<lparr>allocatedPower := 150\<rparr>)"
    by (rule t [THEN conjunct2, THEN conjunct1, rule_format, OF old])
  then have b: "\<exists>s'. map_of (sessions (load_manager (fst (create_session svc_busy ''S2'' ''CP001'' 1 150 0)))) ''S1''
            = Some s'
        \<and> chargerId s' = ''CP001'' \<and> connectorId s' = 1 \<and> status s' = ACTIVE"
    by (simp add: new_session_simps)
  from a b show ?thesis
    by blast
qed

text \<open>
  Claim C3 (allocated equals offered after every event) at the failing input: the first
  session start on an empty registry leaves the new session with 150 kW allocated and
  0 kW offered, because the start handler writes \<open>allocatedPower\<close> only. The power-update
  handler, run next on the same session, writes both fields.
\<close>

theorem session_start_leaves_offered_power:
  "handle_session_start lm_empty ''S1'' ''CP001'' 1 150 0
     = (\<lparr>config = station_s3,
          sessions = [(''S1'', (new_session ''S1'' ''CP001'' 1 150)\<lparr>allocatedPower := 150\<rparr>)]\<rparr>,
        Inr 150)
   \<and> allocatedPower ((new_session ''S1'' ''CP001'' 1 150)\<lparr>allocatedPower := 150\<rparr>) = 150
   \<and> offeredPower ((new_session ''S1'' ''CP001'' 1 150)\<lparr>allocatedPower := 150\<rparr>) = 0
   \<and> handle_power_update
       \<lparr>config = station_s3,
          sessions = [(''S1'', (new_session ''S1'' ''CP001'' 1 150)\<lparr>allocatedPower := 150\<rparr>)]\<rparr>
       ''S1'' 0 150 None
     = (\<lparr>config = station_s3,
          sessions = [(''S1'', (new_session ''S1'' ''CP001'' 1 150)
                                 \<lparr>allocatedPower := 150, offeredPower := 150\<rparr>)]\<rparr>,
        Inr 150)"
proof -
  have lim: "get_charger_connector_limit
               \<lparr>config = station_s3, sessions = [(''S1'', (new_session ''S1'' ''CP001'' 1 150)\<lparr>allocatedPower := a\<rparr>)]\<rparr>
               ((new_session ''S1'' ''CP001'' 1 150)\<lparr>allocatedPower := a\<rparr>) = 200" for a
    by (simp add: new_session_def get_charger_connector_limit_def active_connectors_def
          dict_values_def station_s3_def charger_cfg_def)
  have r: "round1 150 = 150"
    by (simp add: round1_def round_half_even_def Let_def)
  have ta: "total_available_power \<lparr>config = station_s3, sessions = d\<rparr> None = 397" for d
    by (simp add: total_available_power_def station_s3_simps)
  have calc: "calculate_power_allocation
               \<lparr>config = station_s3, sessions = [(''S1'', (new_session ''S1'' ''CP001'' 1 150)\<lparr>allocatedPower := a\<rparr>)]\<rparr>
               [(''S1'', (new_session ''S1'' ''CP001'' 1 150)\<lparr>allocatedPower := a\<rparr>)] None
              = Inr [allocation_of ((new_session ''S1'' ''CP001'' 1 150)\<lparr>allocatedPower := a\<rparr>) 150]" for a
    by (simp add: calculate_power_allocation_def total_demand_of_def dict_values_def
          session_demand_def lim ta r make_allocation_def allocation_of_def Let_def
          new_session_simps)
  have start: "handle_session_start lm_empty ''S1'' ''CP001'' 1 150 0
     = (\<lparr>config = station_s3,
          sessions = [(''S1'', (new_session ''S1'' ''CP001'' 1 150)\<lparr>allocatedPower := 150\<rparr>)]\<rparr>,
        Inr 150)"
    using calc [of 0]
    by (simp add: handle_session_start_def lm_empty_def Let_def new_session_def
          set_allocated_def allocation_for_def allocation_of_def)
  have update: "handle_power_update
       \<lparr>config = station_s3,
          sessions = [(''S1'', (new_session ''S1'' ''CP001'' 1 150)\<lparr>allocatedPower := 150\<rparr>)]\<rparr>
       ''S1'' 0 150 None
     = (\<lparr>config = station_s3,
          sessions = [(''S1'', (new_session ''S1'' ''CP001'' 1 150)
                                 \<lparr>allocatedPower := 150, offeredPower := 150\<rparr>)]\<rparr>,
        Inr 150)"
    using calc [of 150]
    by (simp add: handle_power_update_def Let_def new_session_def
          set_allocated_offered_def allocation_for_def allocation_of_def)
  from start update show ?thesis
    by (simp add: new_session_simps)
qed




section \<open>Properties of the battery controller\<close>

lemma available_energy_nonneg:
  "0 \<le> initialCapacity (bess_config bc) \<Longrightarrow> 0 \<le> calculate_available_energy bc"
  by (simp add: calculate_available_energy_def Let_def)

lemma available_discharge_nonneg:
  "0 \<le> battery_power (bess_config bc) \<Longrightarrow> 0 \<le> initialCapacity (bess_config bc)
     \<Longrightarrow> 0 \<le> calculate_available_discharge bc"
  by (simp add: calculate_available_discharge_def available_energy_nonneg)

lemma available_charge_nonneg:
  "0 \<le> battery_power (bess_config bc) \<Longrightarrow> 0 \<le> initialCapacity (bess_config bc)
     \<Longrightarrow> 0 \<le> calculate_available_charge bc"
  by (simp add: calculate_available_charge_def Let_def)

lemma available_discharge_formula:
  "0 \<le> battery_power (bess_config bc) \<Longrightarrow>
     calculate_available_discharge bc
       = min (of_int (battery_power (bess_config bc))) (calculate_available_energy bc)"
  by (simp add: calculate_available_discharge_def calculate_available_energy_def Let_def max_def min_def)

text \<open>
  Claim C7 (boost policy). For all \<open>grid_available\<close> and \<open>total_demand\<close>,
  \<open>calculate_boost_power\<close> returns the smaller of the shortage
  \<open>total_demand - grid_available\<close> and the available discharge power when the demand
  exceeds the grid and the SOC is above the minimum, and 0 otherwise, in particular at or
  below the minimum SOC. For a battery whose configured power and capacity are not
  negative the result never exceeds the available discharge power, which is the smaller
  of the configured power and the energy available above the minimum SOC.
\<close>

theorem calculate_boost_power_policy:
  "(grid_available < total_demand \<and> minSOC (bess_config bc) < current_soc bc \<longrightarrow>
      calculate_boost_power bc grid_available total_demand
        = min (total_demand - grid_available) (calculate_available_discharge bc))
   \<and> (\<not> (grid_available < total_demand \<and> minSOC (bess_config bc) < current_soc bc) \<longrightarrow>
      calculate_boost_power bc grid_available total_demand = 0)
   \<and> (0 \<le> battery_power (bess_config bc) \<and> 0 \<le> initialCapacity (bess_config bc) \<longrightarrow>
      calculate_boost_power bc grid_available total_demand \<le> calculate_available_discharge bc
      \<and> calculate_available_discharge bc
          = min (of_int (battery_power (bess_config bc))) (calculate_available_energy bc))"
proof (intro conjI impI)
  assume "grid_available < total_demand \<and> minSOC (bess_config bc) < current_soc bc"
  then show "calculate_boost_power bc grid_available total_demand
        = min (total_demand - grid_available) (calculate_available_discharge bc)"
    by (simp add: calculate_boost_power_def Let_def max_def)
next
  assume "\<not> (grid_available < total_demand \<and> minSOC (bess_config bc) < current_soc bc)"
  then show "calculate_boost_power bc grid_available total_demand = 0"
    by (auto simp: calculate_boost_power_def calculate_available_discharge_def Let_def max_def min_def)
next
  assume h: "0 \<le> battery_power (bess_config bc) \<and> 0 \<le> initialCapacity (bess_config bc)"
  then have "0 \<le> calculate_available_discharge bc"
    by (simp add: available_discharge_nonneg)
  then show "calculate_boost_power bc grid_available total_demand \<le> calculate_available_discharge bc"
    by (simp add: calculate_boost_power_def Let_def)
next
  assume h: "0 \<le> battery_power (bess_config bc) \<and> 0 \<le> initialCapacity (bess_config bc)"
  then show "calculate_available_discharge bc
          = min (of_int (battery_power (bess_config bc))) (calculate_available_energy bc)"
    by (simp add: available_discharge_formula)
qed

theorem calculate_boost_power_policy_witness:
  "calculate_boost_power bess_s3 397 600 = 100
   \<and> calculate_boost_power (bess_s3\<lparr>current_soc := 10\<rparr>) 397 600 = 0
   \<and> calculate_boost_power bess_s3 397 300 = 0
   \<and> calculate_available_discharge bess_s3 = 100"
  using calculate_boost_power_policy [of 397 600 bess_s3]
        calculate_boost_power_policy [of 397 600 "bess_s3\<lparr>current_soc := 10\<rparr>"]
        calculate_boost_power_policy [of 397 300 bess_s3]
  by (simp add: bess_s3_def battery_s3_def calculate_available_discharge_def
        calculate_available_energy_def)

text \<open>
  Claim C9 (command clamping, degrade to idle). For every requested power \<open>p \<ge> 0\<close>,
  \<open>set_discharge\<close> returns the discharge command with the power \<open>min p availableDischarge\<close>
  and \<open>set_charge\<close> the charge command with \<open>min p availableCharge\<close>; when that clamped
  power is below 0.1 kW they return the idle command with power 0 instead. Both are total
  functions, and for a battery whose configured power and capacity are not negative the
  commanded power never exceeds what the reservoir makes available.
\<close>

theorem set_discharge_set_charge_clamp:
  "0 \<le> p \<Longrightarrow>
   set_discharge bc p =
     (if min p (calculate_available_discharge bc) < 1 / 10
      then (bc\<lparr>mode := IDLE, current_power := 0\<rparr>, \<lparr>command = ''idle'', cmd_power = 0\<rparr>)
      else (bc\<lparr>mode := BOOST\<rparr>,
            \<lparr>command = ''discharge'', cmd_power = min p (calculate_available_discharge bc)\<rparr>))
   \<and> set_charge bc p =
     (if min p (calculate_available_charge bc) < 1 / 10
      then (bc\<lparr>mode := IDLE, current_power := 0\<rparr>, \<lparr>command = ''idle'', cmd_power = 0\<rparr>)
      else (bc\<lparr>mode := BESS_CHARGING\<rparr>,
            \<lparr>command = ''charge'', cmd_power = min p (calculate_available_charge bc)\<rparr>))
   \<and> (0 \<le> battery_power (bess_config bc) \<and> 0 \<le> initialCapacity (bess_config bc) \<longrightarrow>
        cmd_power (snd (set_discharge bc p)) \<le> calculate_available_discharge bc
        \<and> cmd_power (snd (set_charge bc p)) \<le> calculate_available_charge bc)"
  using available_discharge_nonneg [of bc] available_charge_nonneg [of bc]
  by (simp add: set_discharge_def set_charge_def set_idle_def Let_def)

theorem set_discharge_set_charge_clamp_witness:
  "set_discharge bess_s3 203 = (bess_s3\<lparr>mode := BOOST\<rparr>, \<lparr>command = ''discharge'', cmd_power = 100\<rparr>)
   \<and> set_charge bess_s3 374 = (bess_s3\<lparr>mode := BESS_CHARGING\<rparr>, \<lparr>command = ''charge'', cmd_power = 40\<rparr>)
   \<and> set_discharge (bess_s3\<lparr>current_soc := 10\<rparr>) 203
       = (bess_s3\<lparr>current_soc := 10, mode := IDLE, current_power := 0\<rparr>, \<lparr>command = ''idle'', cmd_power = 0\<rparr>)"
  using set_discharge_set_charge_clamp [of 203 bess_s3]
        set_discharge_set_charge_clamp [of 374 bess_s3]
        set_discharge_set_charge_clamp [of 203 "bess_s3\<lparr>current_soc := 10\<rparr>"]
  by (simp add: bess_s3_def battery_s3_def calculate_available_discharge_def
        calculate_available_charge_def calculate_available_energy_def Let_def)

text \<open>
  Claim C6 (SOC bounds), as stated: after \<open>apply_power\<close> and after the telemetry update the
  SOC lies within \<open>[minSOC, maxSOC]\<close>. The telemetry update stores the reported SOC as it
  is: a battery reporting 5 percent under a minimum of 10 percent leaves the controller at
  5 percent.
\<close>

theorem telemetry_soc_below_min:
  "current_soc (update_from_telemetry bess_s3 5 0) = 5
   \<and> \<not> (minSOC (bess_config (update_from_telemetry bess_s3 5 0))
          \<le> current_soc (update_from_telemetry bess_s3 5 0))"
  by (simp add: update_from_telemetry_def bess_s3_def battery_s3_def)

text \<open>
  Claim C6, amended: when the configured capacity is not 0 and \<open>minSOC \<le> maxSOC\<close>,
  \<open>apply_power\<close> returns a controller whose SOC lies within \<open>[minSOC, maxSOC]\<close>; the
  telemetry update sets the SOC to the reported value, whatever it is.
\<close>

theorem soc_after_update:
  "(initialCapacity (bess_config bc) \<noteq> 0 \<and> minSOC (bess_config bc) \<le> maxSOC (bess_config bc) \<longrightarrow>
      (\<exists>bc'. apply_power bc p duration_seconds = Inr bc'
         \<and> bess_config bc' = bess_config bc
         \<and> minSOC (bess_config bc') \<le> current_soc bc'
         \<and> current_soc bc' \<le> maxSOC (bess_config bc')))
   \<and> current_soc (update_from_telemetry bc soc p) = soc"
  by (simp add: apply_power_def update_from_telemetry_def Let_def)

theorem soc_after_update_witness:
  "apply_power bess_s3 100 3600 = Inr (bess_s3\<lparr>current_soc := 30, current_power := 100, mode := DISCHARGING\<rparr>)
   \<and> apply_power bess_s3 100 7200 = Inr (bess_s3\<lparr>current_soc := 10, current_power := 100, mode := DISCHARGING\<rparr>)"
  using soc_after_update [of bess_s3 100 3600] soc_after_update [of bess_s3 100 7200]
  by (simp add: apply_power_def bess_s3_def battery_s3_def mode_of_power_def Let_def)

section \<open>Properties of the battery policy step\<close>

lemma optimize_nearly_full:
  "optimize_bess_usage svc_boost_nearly_full = (svc_boost_nearly_full, None)"
  by (simp add: optimize_bess_usage_def svc_boost_nearly_full_def
        total_consumed_of_def total_demand_of_def dict_values_def station_s3_simps
        bess_s3_def battery_s3_def calculate_charge_opportunity_def
        calculate_available_charge_def MIN_CHARGE_POWER_def Let_def)

lemma optimize_depleted:
  "optimize_bess_usage svc_depleted = (svc_depleted, None)"
  by (simp add: optimize_bess_usage_def svc_depleted_def demand_four consumed_four
        station_s3_simps bess_s3_def battery_s3_def calculate_boost_power_def
        calculate_available_discharge_def Let_def)

text \<open>
  Claim C8 (charge opportunity), as stated, fails twice. With no session, a battery at 99
  percent (2 kW of charge room, below the 5 kW threshold) and the controller in boost
  mode, the step issues no command and leaves the boost mode: no idle command is sent.
  With four sessions demanding 400 kW against 397 kW of grid and the battery at its
  minimum SOC, the boost condition does not hold, the load is 0 and 100 kW of charge is
  available, yet the step takes the boost branch and issues no command.
\<close>

theorem charge_opportunity_counterexample:
  "optimize_bess_usage svc_boost_nearly_full = (svc_boost_nearly_full, None)
   \<and> map_option mode (bess_controller svc_boost_nearly_full) = Some BOOST
   \<and> optimize_bess_usage svc_depleted = (svc_depleted, None)
   \<and> total_consumed_of (load_manager svc_depleted) = 0
   \<and> map_option calculate_available_charge (bess_controller svc_depleted) = Some 100"
proof -
  have "map_option mode (bess_controller svc_boost_nearly_full) = Some BOOST"
    by (simp add: svc_boost_nearly_full_def)
  moreover have "total_consumed_of (load_manager svc_depleted) = 0"
    by (simp add: svc_depleted_def consumed_four)
  moreover have "map_option calculate_available_charge (bess_controller svc_depleted) = Some 100"
    by (simp add: svc_depleted_def bess_s3_def battery_s3_def calculate_available_charge_def Let_def)
  ultimately show ?thesis
    using optimize_nearly_full optimize_depleted by simp
qed

text \<open>
  Claim C8, amended: when the total demand does not exceed the grid power available, the
  load is below 70 percent of it and the SOC is below the maximum, the step commands a
  charge of \<open>min (gridAvailable - currentLoad) availableCharge\<close> when that value is at
  least 5 kW; when it is below 5 kW the step issues no command and leaves the controller
  as it was.
\<close>

theorem charge_opportunity_policy:
  assumes "bess_controller svc = Some bc"
    and "total_demand_of (load_manager svc) (sessions (load_manager svc)) \<le> grid_available"
    and "total_consumed_of (load_manager svc) < grid_available * (7 / 10)"
    and "current_soc bc < maxSOC (bess_config bc)"
    and "grid_available = of_int (gridCapacity (config (load_manager svc))) - staticLoad (config (load_manager svc))"
    and "charge = min (grid_available - total_consumed_of (load_manager svc)) (calculate_available_charge bc)"
  shows "(5 \<le> charge \<longrightarrow>
            optimize_bess_usage svc
              = (svc\<lparr>bess_controller := Some (bc\<lparr>mode := BESS_CHARGING\<rparr>)\<rparr>,
                 Some \<lparr>command = ''charge'', cmd_power = charge\<rparr>))
       \<and> (charge < 5 \<longrightarrow> optimize_bess_usage svc = (svc, None))"
proof -
  let ?opp = "calculate_charge_opportunity bc grid_available (total_consumed_of (load_manager svc))"
  have opp: "?opp = (if charge < 5 then 0 else charge)"
    using assms(4,6)
    by (auto simp: calculate_charge_opportunity_def MIN_CHARGE_POWER_def Let_def)
  have branch: "optimize_bess_usage svc =
      (if 0 < ?opp then
         (case set_charge bc ?opp of (bc', cmd) \<Rightarrow> (svc\<lparr>bess_controller := Some bc'\<rparr>, Some cmd))
       else (svc, None))"
    using assms(1,2,3) unfolding assms(5)
    by (simp add: optimize_bess_usage_def Let_def)
  have sc: "set_charge bc charge = (bc\<lparr>mode := BESS_CHARGING\<rparr>, \<lparr>command = ''charge'', cmd_power = charge\<rparr>)"
    if "5 \<le> charge"
  proof -
    have le: "charge \<le> calculate_available_charge bc"
      using assms(6) by simp
    then have m: "min charge (calculate_available_charge bc) = charge"
      by simp
    have "\<not> charge < 1 / 10"
      using that by simp
    then show ?thesis
      unfolding set_charge_def Let_def m by simp
  qed
  show ?thesis
    using opp branch sc by auto
qed

lemma one_session_demand:
  "total_demand_of (load_manager svc_one_session) (sessions (load_manager svc_one_session)) = 150"
  by (simp add: svc_one_session_def total_demand_of_def dict_values_def new_session_def
        session_demand_def get_charger_connector_limit_def active_connectors_def
        station_s3_def charger_cfg_def)

lemma one_session_consumed: "total_consumed_of (load_manager svc_one_session) = 20"
  by (simp add: svc_one_session_def total_consumed_of_def dict_values_def new_session_def)

lemma one_session_charge: "calculate_available_charge (bess_s3\<lparr>current_soc := 60\<rparr>) = 80"
  by (simp add: bess_s3_def battery_s3_def calculate_available_charge_def Let_def)

theorem charge_opportunity_policy_witness:
  "optimize_bess_usage svc_one_session
     = (svc_one_session\<lparr>bess_controller := Some (bess_s3\<lparr>current_soc := 60, mode := BESS_CHARGING\<rparr>)\<rparr>,
        Some \<lparr>command = ''charge'', cmd_power = 80\<rparr>)"
proof -
  have h1: "bess_controller svc_one_session = Some (bess_s3\<lparr>current_soc := 60\<rparr>)"
    by (simp add: svc_one_session_def)
  have h2: "total_demand_of (load_manager svc_one_session) (sessions (load_manager svc_one_session)) \<le> 397"
    by (simp add: one_session_demand)
  have h3: "total_consumed_of (load_manager svc_one_session) < 397 * (7 / 10)"
    by (simp add: one_session_consumed)
  have h4: "current_soc (bess_s3\<lparr>current_soc := 60\<rparr>) < maxSOC (bess_config (bess_s3\<lparr>current_soc := 60\<rparr>))"
    by (simp add: bess_s3_def battery_s3_def)
  have h5: "(397::rat) = of_int (gridCapacity (config (load_manager svc_one_session)))
              - staticLoad (config (load_manager svc_one_session))"
    by (simp add: svc_one_session_def station_s3_simps)
  have h6: "(80::rat) = min (397 - total_consumed_of (load_manager svc_one_session))
              (calculate_available_charge (bess_s3\<lparr>current_soc := 60\<rparr>))"
    by (simp add: one_session_consumed one_session_charge)
  from charge_opportunity_policy [OF h1 h2 h3 h4 h5 h6] show ?thesis
    by simp
qed

end
